theory Spec2Isabelle
  imports Complex_Main
begin

section \<open>Values of the Python runtime\<close>

subsection \<open>Binary64 floats\<close>

text \<open>
  A Python \<^verbatim>\<open>float\<close> and a polars \<^verbatim>\<open>Float64\<close> are IEEE 754 binary64 numbers.
  \<open>Finite s m e\<close> is the number \<open>(-1)^s * m * 2^e\<close> with \<open>0 \<le> m\<close>; the canonical form has
  \<open>m\<close> odd, or \<open>m = 0\<close> and \<open>e = 0\<close>, so that equal numbers of the same sign are equal
  terms. The sign of zero is kept.
\<close>

datatype f64 = Finite bool int int | Infinite bool | NaN

text \<open>The number of binary digits of a positive integer.\<close>

function bitlen :: "int \<Rightarrow> int" where
  "bitlen n = (if n \<le> 0 then 0 else 1 + bitlen (n div 2))"
  by pat_completeness auto
termination
  by (relation "measure nat") auto

declare bitlen.simps [simp del]

function canon :: "bool \<Rightarrow> int \<Rightarrow> int \<Rightarrow> f64" where
  "canon s m e =
     (if m \<le> 0 then Finite s 0 0
      else if even m then canon s (m div 2) (e + 1)
      else Finite s m e)"
  by pat_completeness auto
termination
  by (relation "measure (\<lambda>(s, m, e). nat m)") auto

declare canon.simps [simp del]

text \<open>
  Rounding of the exact number \<open>m * 2^e\<close> to binary64, to nearest and ties to even: 53
  significant bits, the last one no finer than \<open>2^-1074\<close>, and infinity from \<open>2^1024\<close> on.
\<close>

definition round_f64 :: "bool \<Rightarrow> int \<Rightarrow> int \<Rightarrow> f64" where
  "round_f64 s m e =
     (let eo = max e (max (e + bitlen m - 53) (- 1074));
          sh = nat (eo - e);
          q = m div 2 ^ sh;
          r = m mod 2 ^ sh;
          q' = (if 2 * r > 2 ^ sh \<or> (2 * r = 2 ^ sh \<and> odd q) then q + 1 else q)
      in if eo + bitlen q' > 1024 then Infinite s else canon s q' eo)"

fun f64_mul :: "f64 \<Rightarrow> f64 \<Rightarrow> f64" where
  "f64_mul (Finite s m e) (Finite t n d) = round_f64 (s \<noteq> t) (m * n) (e + d)"
| "f64_mul (Finite s m e) (Infinite t) = (if m = 0 then NaN else Infinite (s \<noteq> t))"
| "f64_mul (Infinite s) (Finite t n d) = (if n = 0 then NaN else Infinite (s \<noteq> t))"
| "f64_mul (Infinite s) (Infinite t) = Infinite (s \<noteq> t)"
| "f64_mul NaN _ = NaN"
| "f64_mul _ NaN = NaN"

definition f64_of_int :: "int \<Rightarrow> f64" where
  "f64_of_int i = round_f64 (i < 0) \<bar>i\<bar> 0"

text \<open>The rational number a finite float stands for.\<close>

fun f64_val :: "f64 \<Rightarrow> rat option" where
  "f64_val (Finite s m e) =
     Some ((if s then - 1 else 1) * of_int m *
           (if 0 \<le> e then 2 ^ nat e else 1 / 2 ^ nat (- e)))"
| "f64_val _ = None"

subsection \<open>Decimal text\<close>

definition digit_char :: "int \<Rightarrow> char" where
  "digit_char d = ''0123456789abcdef'' ! nat d"

text \<open>The decimal digits of a natural number.\<close>

function digits10 :: "int \<Rightarrow> string" where
  "digits10 n =
     (if n < 10 then [digit_char n] else digits10 (n div 10) @ [digit_char (n mod 10)])"
  by pat_completeness auto
termination
  by (relation "measure nat") auto

declare digits10.simps [simp del]

text \<open>\<^verbatim>\<open>str(i)\<close> and \<^verbatim>\<open>repr(i)\<close> of a Python int.\<close>

definition int_repr :: "int \<Rightarrow> string" where
  "int_repr i = (if i < 0 then ''-'' @ digits10 (- i) else digits10 i)"

text \<open>
  \<^verbatim>\<open>repr(x)\<close> of a float: the shortest decimal digits that read back as \<open>x\<close>, the closest
  to \<open>x\<close> among them, in positional notation when the decimal point stands in
  \<open>-4 < decpt \<le> 16\<close> and in exponent notation otherwise.

  \<open>shortest_digits m e\<close> works on the positive number \<open>m * 2^e\<close>, in units of a quarter of
  its last place: the number is \<open>v\<close> units, its rounding interval is \<open>lo .. hi\<close>, closed
  when the significand is even. A decimal \<open>d * 10^k\<close> is compared with \<open>x\<close> units by
  cross multiplication.
\<close>

fun first_some :: "('a \<Rightarrow> 'b option) \<Rightarrow> 'a list \<Rightarrow> 'b option" where
  "first_some f [] = None"
| "first_some f (x # xs) = (case f x of Some y \<Rightarrow> Some y | None \<Rightarrow> first_some f xs)"

definition dec_side :: "int \<Rightarrow> int \<Rightarrow> int \<Rightarrow> int" where
  "dec_side u k d = d * 10 ^ nat k * 2 ^ nat (- u)"

definition bin_side :: "int \<Rightarrow> int \<Rightarrow> int \<Rightarrow> int" where
  "bin_side u k x = x * 2 ^ nat u * 10 ^ nat (- k)"

definition shortest_digits :: "int \<Rightarrow> int \<Rightarrow> int \<times> int" where
  "shortest_digits m e =
     (let eu = max (e + bitlen m - 53) (- 1074);
          sig = m * 2 ^ nat (e - eu);
          u = eu - 2;
          v = 4 * sig;
          hi = v + 2;
          lo = (if sig = 2 ^ 52 \<and> - 1074 < eu then v - 1 else v - 2);
          inside = (\<lambda>k d.
            if even sig
            then bin_side u k lo \<le> dec_side u k d \<and> dec_side u k d \<le> bin_side u k hi
            else bin_side u k lo < dec_side u k d \<and> dec_side u k d < bin_side u k hi);
          num = v * 2 ^ nat u;
          den = 2 ^ nat (- u);
          p = (if den \<le> num then int (length (digits10 (num div den)))
               else 1 - int (length (digits10 ((den - 1) div num))));
          try = (\<lambda>n.
            let k = p - n;
                d = bin_side u k v div dec_side u k 1;
                up = 2 * bin_side u k v > dec_side u k (2 * d + 1) \<or>
                     (2 * bin_side u k v = dec_side u k (2 * d + 1) \<and> odd d)
            in if inside k d \<and> inside k (d + 1) then Some (if up then d + 1 else d, k)
               else if inside k (d + 1) then Some (d + 1, k)
               else if inside k d then Some (d, k)
               else None)
      in case first_some try [1 .. 17] of
           Some dk \<Rightarrow> dk
         | None \<Rightarrow> (bin_side u (p - 17) v div dec_side u (p - 17) 1, p - 17))"

fun strip_zeros :: "string \<Rightarrow> string" where
  "strip_zeros ds =
     (if ds \<noteq> [] \<and> last ds = CHR ''0'' \<and> length ds > 1 then strip_zeros (butlast ds) else ds)"

declare strip_zeros.simps [simp del]

definition exp_text :: "int \<Rightarrow> string" where
  "exp_text x =
     (if x < 0 then ''-'' else ''+'') @
     (if \<bar>x\<bar> < 10 then ''0'' else '''') @ digits10 \<bar>x\<bar>"

definition layout_digits :: "string \<Rightarrow> int \<Rightarrow> string" where
  "layout_digits ds decpt =
     (if decpt \<le> - 4 \<or> 16 < decpt
      then take 1 ds @ (if length ds > 1 then ''.'' @ drop 1 ds else '''') @
           ''e'' @ exp_text (decpt - 1)
      else if decpt \<le> 0 then ''0.'' @ replicate (nat (- decpt)) CHR ''0'' @ ds
      else if decpt < int (length ds) then take (nat decpt) ds @ ''.'' @ drop (nat decpt) ds
      else ds @ replicate (nat decpt - length ds) CHR ''0'' @ ''.0'')"

fun float_repr :: "f64 \<Rightarrow> string" where
  "float_repr NaN = ''nan''"
| "float_repr (Infinite s) = (if s then ''-inf'' else ''inf'')"
| "float_repr (Finite s m e) =
     (if s then ''-'' else '''') @
     (if m = 0 then ''0.0''
      else let (d, k) = shortest_digits m e; ds = digits10 d
           in layout_digits (strip_zeros ds) (k + int (length ds)))"

subsection \<open>Exceptions\<close>

text \<open>
  Every exception the handlers and the library calls under them can raise is a value;
  a computation returns \<open>error + 'a\<close>, with \<open>Inl\<close> for the exception.
\<close>

datatype error =
    JSONDecodeError
  | AttributeError
  | ValueError
  | FileNotFoundError
  | RuntimeError
  | ShapeError
  | ColumnNotFoundError
  | DuplicateError
  | InvalidOperationError
  | DatabaseError
  | TemplateNotFound
  | HTTPException nat string

subsection \<open>JSON values and their text\<close>

text \<open>
  What \<^verbatim>\<open>json.loads\<close> builds and \<^verbatim>\<open>json.dumps\<close> takes: \<^verbatim>\<open>None\<close>, booleans, ints,
  floats, strings, lists, and dicts with string keys. A dict is the list of its items in
  insertion order. A string is the list of its bytes in UTF-8.
\<close>

datatype json =
    JNull
  | JBool bool
  | JInt int
  | JFloat f64
  | JStr string
  | JArr "json list"
  | JObj "(string \<times> json) list"

text \<open>\<^verbatim>\<open>sep.join(parts)\<close>\<close>

fun join :: "string \<Rightarrow> string list \<Rightarrow> string" where
  "join sep [] = []"
| "join sep [x] = x"
| "join sep (x # y # ys) = x @ sep @ join sep (y # ys)"

definition hex2 :: "nat \<Rightarrow> string" where
  "hex2 n = [digit_char (int (n div 16)), digit_char (int (n mod 16))]"

text \<open>
  The string escapes of \<^verbatim>\<open>json.dumps(..., ensure_ascii=False)\<close>: the quote, the
  backslash and the control characters below 0x20; every other byte stands for itself.
\<close>

definition json_escape_char :: "char \<Rightarrow> string" where
  "json_escape_char c =
     (if c = CHR 0x22 then [CHR 0x5C, CHR 0x22]
      else if c = CHR 0x5C then [CHR 0x5C, CHR 0x5C]
      else if c = CHR 0x0A then [CHR 0x5C, CHR ''n'']
      else if c = CHR 0x0D then [CHR 0x5C, CHR ''r'']
      else if c = CHR 0x09 then [CHR 0x5C, CHR ''t'']
      else if c = CHR 0x08 then [CHR 0x5C, CHR ''b'']
      else if c = CHR 0x0C then [CHR 0x5C, CHR ''f'']
      else if of_char c < (0x20 :: nat) then [CHR 0x5C, CHR ''u'', CHR ''0'', CHR ''0''] @ hex2 (of_char c)
      else [c])"

definition json_string :: "string \<Rightarrow> string" where
  "json_string s = [CHR 0x22] @ concat (map json_escape_char s) @ [CHR 0x22]"

text \<open>
  \<^verbatim>\<open>json.dumps(content, ensure_ascii=False, allow_nan=False, indent=None,
  separators=(",", ":"))\<close>, the rendering of \<^verbatim>\<open>JSONResponse\<close>. A float that is not
  finite raises \<^verbatim>\<open>ValueError\<close>.
\<close>

text \<open>The results of a sequence of computations, up to the first exception.\<close>

fun collect :: "(error + 'a) list \<Rightarrow> error + 'a list" where
  "collect [] = Inr []"
| "collect (Inl e # _) = Inl e"
| "collect (Inr x # rest) =
     (case collect rest of Inl e \<Rightarrow> Inl e | Inr xs \<Rightarrow> Inr (x # xs))"

fun json_dumps :: "json \<Rightarrow> error + string"
  and json_dumps_list :: "json list \<Rightarrow> (error + string) list"
  and json_dumps_items :: "(string \<times> json) list \<Rightarrow> (error + string) list" where
  "json_dumps JNull = Inr ''null''"
| "json_dumps (JBool b) = Inr (if b then ''true'' else ''false'')"
| "json_dumps (JInt i) = Inr (int_repr i)"
| "json_dumps (JFloat x) =
     (case x of Finite s m e \<Rightarrow> Inr (float_repr x) | _ \<Rightarrow> Inl ValueError)"
| "json_dumps (JStr s) = Inr (json_string s)"
| "json_dumps (JArr xs) =
     (case collect (json_dumps_list xs) of
        Inl e \<Rightarrow> Inl e
      | Inr parts \<Rightarrow> Inr (''['' @ join '','' parts @ '']''))"
| "json_dumps (JObj kvs) =
     (case collect (json_dumps_items kvs) of
        Inl e \<Rightarrow> Inl e
      | Inr parts \<Rightarrow> Inr (''{'' @ join '','' parts @ ''}''))"
| "json_dumps_list [] = []"
| "json_dumps_list (x # xs) = json_dumps x # json_dumps_list xs"
| "json_dumps_items [] = []"
| "json_dumps_items ((k, v) # kvs) =
     (case json_dumps v of
        Inl e \<Rightarrow> Inl e
      | Inr t \<Rightarrow> Inr (json_string k @ '':'' @ t)) # json_dumps_items kvs"

subsection \<open>\<^verbatim>\<open>str\<close> and \<^verbatim>\<open>repr\<close>\<close>

text \<open>
  \<^verbatim>\<open>repr(s)\<close> of a string: single quotes, unless the string has a single quote and no
  double quote; the quote in use and the backslash are escaped, tab, newline and return
  are written \<^verbatim>\<open>\t\<close>, \<^verbatim>\<open>\n\<close>, \<^verbatim>\<open>\r\<close>, the other ASCII control characters \<^verbatim>\<open>\xhh\<close>.
  Bytes from 0x80 on (the UTF-8 of a character beyond ASCII) stand for themselves, as the
  printable characters do.
\<close>

definition repr_escape_char :: "char \<Rightarrow> char \<Rightarrow> string" where
  "repr_escape_char q c =
     (if c = q \<or> c = CHR 0x5C then [CHR 0x5C, c]
      else if c = CHR 0x09 then [CHR 0x5C, CHR ''t'']
      else if c = CHR 0x0A then [CHR 0x5C, CHR ''n'']
      else if c = CHR 0x0D then [CHR 0x5C, CHR ''r'']
      else if of_char c < (0x20 :: nat) \<or> c = CHR 0x7F then [CHR 0x5C, CHR ''x''] @ hex2 (of_char c)
      else [c])"

definition str_repr :: "string \<Rightarrow> string" where
  "str_repr s =
     (let q = (if CHR 0x27 \<in> set s \<and> CHR 0x22 \<notin> set s then CHR 0x22 else CHR 0x27)
      in [q] @ concat (map (repr_escape_char q) s) @ [q])"

fun py_repr :: "json \<Rightarrow> string"
  and py_repr_list :: "json list \<Rightarrow> string list"
  and py_repr_items :: "(string \<times> json) list \<Rightarrow> string list" where
  "py_repr JNull = ''None''"
| "py_repr (JBool b) = (if b then ''True'' else ''False'')"
| "py_repr (JInt i) = int_repr i"
| "py_repr (JFloat x) = float_repr x"
| "py_repr (JStr s) = str_repr s"
| "py_repr (JArr xs) = ''['' @ join '', '' (py_repr_list xs) @ '']''"
| "py_repr (JObj kvs) = ''{'' @ join '', '' (py_repr_items kvs) @ ''}''"
| "py_repr_list [] = []"
| "py_repr_list (x # xs) = py_repr x # py_repr_list xs"
| "py_repr_items [] = []"
| "py_repr_items ((k, v) # kvs) = (str_repr k @ '': '' @ py_repr v) # py_repr_items kvs"

text \<open>\<^verbatim>\<open>str(v)\<close>, which is what an f-string field \<^verbatim>\<open>{v}\<close> inserts.\<close>

definition py_str :: "json \<Rightarrow> string" where
  "py_str v = (case v of JStr s \<Rightarrow> s | _ \<Rightarrow> py_repr v)"

text \<open>\<^verbatim>\<open>d.get(key, default)\<close> on a dict.\<close>

definition dict_get :: "(string \<times> json) list \<Rightarrow> string \<Rightarrow> json \<Rightarrow> json" where
  "dict_get d key dflt = (case map_of d key of Some v \<Rightarrow> v | None \<Rightarrow> dflt)"

section \<open>The polars operations the handlers use\<close>

text \<open>
  A data frame is the list of its named columns, in order; a column holds strings
  (\<^verbatim>\<open>Utf8\<close>), 64-bit signed integers or binary64 floats. A Python list of \<^verbatim>\<open>str\<close>, of
  \<^verbatim>\<open>int\<close> or of \<^verbatim>\<open>float\<close> becomes a column of the first, second or third kind. These
  are the columns of the two literal tables; they have no missing values.
\<close>

datatype series = Utf8 "string list" | Int64 "int list" | Float64 "f64 list"

type_synonym dataframe = "(string \<times> series) list"

fun series_len :: "series \<Rightarrow> nat" where
  "series_len (Utf8 xs) = length xs"
| "series_len (Int64 xs) = length xs"
| "series_len (Float64 xs) = length xs"

text \<open>\<^verbatim>\<open>pl.DataFrame({...})\<close>: the columns must have one length.\<close>

definition DataFrame :: "(string \<times> series) list \<Rightarrow> error + dataframe" where
  "DataFrame cols =
     (case map (\<lambda>c. series_len (snd c)) cols of
        [] \<Rightarrow> Inr cols
      | h # hs \<Rightarrow> if list_all (\<lambda>n. n = h) hs then Inr cols else Inl ShapeError)"

datatype expr = Col string | Mul expr expr | Alias expr string

definition wrap64 :: "int \<Rightarrow> int" where
  "wrap64 i = (i + 2 ^ 63) mod 2 ^ 64 - 2 ^ 63"

text \<open>
  The product of two columns, element by element. An integer column multiplied with a
  float column is cast to floats first; integer products wrap around; strings have no
  product.
\<close>

fun series_mul :: "series \<Rightarrow> series \<Rightarrow> error + series" where
  "series_mul (Float64 xs) (Float64 ys) = Inr (Float64 (map2 f64_mul xs ys))"
| "series_mul (Float64 xs) (Int64 ys) = Inr (Float64 (map2 f64_mul xs (map f64_of_int ys)))"
| "series_mul (Int64 xs) (Float64 ys) = Inr (Float64 (map2 f64_mul (map f64_of_int xs) ys))"
| "series_mul (Int64 xs) (Int64 ys) = Inr (Int64 (map2 (\<lambda>x y. wrap64 (x * y)) xs ys))"
| "series_mul (Utf8 xs) _ = Inl InvalidOperationError"
| "series_mul _ (Utf8 ys) = Inl InvalidOperationError"

text \<open>
  An expression evaluates on a data frame to a named column: \<^verbatim>\<open>pl.col(n)\<close> is the column
  \<open>n\<close>, a product carries the name of its left operand, \<^verbatim>\<open>.alias(n)\<close> renames.
\<close>

fun eval_expr :: "dataframe \<Rightarrow> expr \<Rightarrow> error + string \<times> series" where
  "eval_expr df (Col n) =
     (case map_of df n of None \<Rightarrow> Inl ColumnNotFoundError | Some c \<Rightarrow> Inr (n, c))"
| "eval_expr df (Mul a b) =
     (case eval_expr df a of
        Inl e \<Rightarrow> Inl e
      | Inr (n, x) \<Rightarrow>
          (case eval_expr df b of
             Inl e \<Rightarrow> Inl e
           | Inr (_, y) \<Rightarrow>
               (case series_mul x y of Inl e \<Rightarrow> Inl e | Inr z \<Rightarrow> Inr (n, z))))"
| "eval_expr df (Alias a n) =
     (case eval_expr df a of Inl e \<Rightarrow> Inl e | Inr (_, x) \<Rightarrow> Inr (n, x))"

text \<open>\<^verbatim>\<open>df.select([...])\<close>: the frame of the expressions' columns, whose names must differ.\<close>

definition select :: "dataframe \<Rightarrow> expr list \<Rightarrow> error + dataframe" where
  "select df exprs =
     (case collect (map (eval_expr df) exprs) of
        Inl e \<Rightarrow> Inl e
      | Inr cols \<Rightarrow> if distinct (map fst cols) then Inr cols else Inl DuplicateError)"

fun series_values :: "series \<Rightarrow> json list" where
  "series_values (Utf8 xs) = map JStr xs"
| "series_values (Int64 xs) = map JInt xs"
| "series_values (Float64 xs) = map JFloat xs"

text \<open>\<^verbatim>\<open>df.to_dicts()\<close>: one dict per row, its keys the column names in column order.\<close>

definition to_dicts :: "dataframe \<Rightarrow> (string \<times> json) list list" where
  "to_dicts df = transpose (map (\<lambda>(n, c). map (Pair n) (series_values c)) df)"

section \<open>Requests, responses and the application state\<close>

datatype http_method = GET | HEAD | POST | PUT | PATCH | DELETE | OPTIONS

text \<open>
  The body of a request, by what \<^verbatim>\<open>json.loads\<close> makes of its bytes: it rejects them, or
  decodes them to a value.
\<close>

datatype payload = Undecodable string | Decodable json

text \<open>
  The path of a request is the list of its segments after the leading slash: the root
  path is the list of one empty segment, \<^verbatim>\<open>/api/hello\<close> is the list of \<^verbatim>\<open>api\<close> and
  \<^verbatim>\<open>hello\<close>.
\<close>

record request =
  "method" :: http_method
  path :: "string list"
  query_string :: string
  headers :: "(string \<times> string) list"
  body :: payload

record response =
  status_code :: nat
  media_type :: string
  content :: string

text \<open>
  A database handle answers \<^verbatim>\<open>db.sql(q).pl()\<close> with a data frame or an exception. The
  handle is the database as it stands: as long as the handle is the same, a statement
  has the same answer.
\<close>

datatype db_handle = DbHandle (sql_pl: "string \<Rightarrow> error + dataframe")

text \<open>
  \<open>db\<close> is \<^verbatim>\<open>app.state.db\<close>. \<open>sql_log\<close> is the history of the statements sent to a
  database handle: it is not a variable of the program, it records the one effect the
  handlers can have outside the application state.
\<close>

record app_state =
  db :: "db_handle option"
  sql_log :: "string list"

text \<open>
  What the program does not fix: where the package is installed, the files and
  directories there, what Jinja2 makes of a template's text for a request, and what
  Starlette's \<^verbatim>\<open>FileResponse\<close> sends for an existing file.
\<close>

record env =
  module_file :: "string list"
  files :: "string list \<Rightarrow> string option"
  is_dir :: "string list \<Rightarrow> bool"
  jinja :: "string \<Rightarrow> request \<Rightarrow> error + string"
  file_response :: "string list \<Rightarrow> string \<Rightarrow> request \<Rightarrow> response"

type_synonym handler = "app_state \<Rightarrow> request \<Rightarrow> (error + response) \<times> app_state"

text \<open>\<^verbatim>\<open>await request.json()\<close>\<close>

definition request_json :: "request \<Rightarrow> error + json" where
  "request_json req =
     (case body req of Undecodable _ \<Rightarrow> Inl JSONDecodeError | Decodable v \<Rightarrow> Inr v)"

text \<open>\<^verbatim>\<open>JSONResponse(content)\<close>: status 200, the content rendered at construction.\<close>

definition JSONResponse :: "json \<Rightarrow> error + response" where
  "JSONResponse v =
     (case json_dumps v of
        Inl e \<Rightarrow> Inl e
      | Inr text \<Rightarrow>
          Inr \<lparr>status_code = 200, media_type = ''application/json'', content = text\<rparr>)"

section \<open>\<^verbatim>\<open>boilerplate_app/web/routes.py\<close>\<close>

definition hello :: handler where
  "hello s request =
     (JSONResponse (JObj [(''message'', JStr ''Hello from Starlette API!'')]), s)"

definition hello_post :: handler where
  "hello_post s request =
     (case request_json request of
        Inl e \<Rightarrow> (Inl e, s)
      | Inr data \<Rightarrow>
          (case data of
             JObj d \<Rightarrow>
               (JSONResponse
                  (JObj [(''message'',
                          JStr (''Hello, '' @ py_str (dict_get d ''name'' (JStr ''World'')) @ ''!''))]),
                s)
           | _ \<Rightarrow> (Inl AttributeError, s)))"

definition templates_dir :: "env \<Rightarrow> string list" where
  "templates_dir ev = butlast (module_file ev) @ [''templates'']"

text \<open>\<^verbatim>\<open>templates.TemplateResponse(name, {'request': request})\<close>\<close>

definition TemplateResponse :: "env \<Rightarrow> string \<Rightarrow> request \<Rightarrow> error + response" where
  "TemplateResponse ev name request =
     (case files ev (templates_dir ev @ [name]) of
        None \<Rightarrow> Inl TemplateNotFound
      | Some source \<Rightarrow>
          (case jinja ev source request of
             Inl e \<Rightarrow> Inl e
           | Inr html \<Rightarrow> Inr \<lparr>status_code = 200, media_type = ''text/html'', content = html\<rparr>))"

definition hello_htmx :: "env \<Rightarrow> handler" where
  "hello_htmx ev s request = (TemplateResponse ev ''hello_htmx.html'' request, s)"

definition main_content :: "env \<Rightarrow> handler" where
  "main_content ev s request = (TemplateResponse ev ''main_content.html'' request, s)"

text \<open>
  The inner function \<^verbatim>\<open>query\<close> of \<^verbatim>\<open>duckdb_example\<close>, run by \<^verbatim>\<open>run_in_threadpool\<close>,
  which returns what it returns and raises what it raises.
\<close>

definition query :: "app_state \<Rightarrow> (error + (string \<times> json) list list) \<times> app_state" where
  "query s =
     (case db s of
        None \<Rightarrow>
          (case DataFrame
                  [(''name'', Utf8 [''Alice'', ''Bob'', ''Charlie'']),
                   (''age'', Int64 [25, 30, 35]),
                   (''city'', Utf8 [''NYC'', ''LA'', ''Chicago''])] of
             Inl e \<Rightarrow> (Inl e, s)
           | Inr df \<Rightarrow> (Inr (to_dicts df), s))
      | Some h \<Rightarrow>
          (case sql_pl h ''SELECT * FROM users'' of
             Inl e \<Rightarrow> (Inl e, s\<lparr>sql_log := sql_log s @ [''SELECT * FROM users'']\<rparr>)
           | Inr df \<Rightarrow>
               (Inr (to_dicts df), s\<lparr>sql_log := sql_log s @ [''SELECT * FROM users'']\<rparr>)))"

definition duckdb_example :: handler where
  "duckdb_example s request =
     (case query s of
        (Inl e, s') \<Rightarrow> (Inl e, s')
      | (Inr rows, s') \<Rightarrow> (JSONResponse (JArr (map JObj rows)), s'))"

text \<open>
  The float literals \<^verbatim>\<open>10.5, 25.0, 15.75, 30.0, 20.25\<close> are binary64 numbers exactly:
  \<open>21/2\<close>, \<open>25\<close>, \<open>63/4\<close>, \<open>15 * 2\<close> and \<open>81/4\<close>.
\<close>

definition price :: "f64 list" where
  "price =
     [Finite False 21 (- 1), Finite False 25 0, Finite False 63 (- 2), Finite False 15 1,
      Finite False 81 (- 2)]"

definition process :: "error + (string \<times> json) list list" where
  "process =
     (case DataFrame
             [(''product'', Utf8 [''A'', ''B'', ''C'', ''D'', ''E'']),
              (''price'', Float64 price),
              (''quantity'', Int64 [100, 50, 75, 25, 60])] of
        Inl e \<Rightarrow> Inl e
      | Inr df \<Rightarrow>
          (case select df [Col ''product'', Alias (Mul (Col ''price'') (Col ''quantity'')) ''total''] of
             Inl e \<Rightarrow> Inl e
           | Inr summary \<Rightarrow> Inr (to_dicts summary)))"

definition polars_example :: handler where
  "polars_example s request =
     (case process of
        Inl e \<Rightarrow> (Inl e, s)
      | Inr rows \<Rightarrow> (JSONResponse (JArr (map JObj rows)), s))"

section \<open>\<^verbatim>\<open>boilerplate_app/web/__init__.py\<close>\<close>

definition lifespan :: "app_state \<Rightarrow> app_state" where
  "lifespan s = s\<lparr>db := None\<rparr>"

text \<open>\<^verbatim>\<open>Path(__file__).parent.parent.parent.parent / 'frontend' / 'dist'\<close>\<close>

definition static_dir :: "env \<Rightarrow> string list" where
  "static_dir ev =
     butlast (butlast (butlast (butlast (module_file ev)))) @ [''frontend'', ''dist'']"

text \<open>\<^verbatim>\<open>open(p, 'rb').read()\<close>\<close>

definition open_read :: "env \<Rightarrow> string list \<Rightarrow> error + string" where
  "open_read ev p = (case files ev p of None \<Rightarrow> Inl FileNotFoundError | Some data \<Rightarrow> Inr data)"

text \<open>The two lambdas of \<^verbatim>\<open>create_app\<close>, for \<^verbatim>\<open>/vite.svg\<close> and for \<^verbatim>\<open>/\<close>.\<close>

definition vite_svg :: "env \<Rightarrow> handler" where
  "vite_svg ev s r =
     (case open_read ev (static_dir ev @ [''vite.svg'']) of
        Inl e \<Rightarrow> (Inl e, s)
      | Inr data \<Rightarrow>
          (Inr \<lparr>status_code = 200, media_type = ''image/svg+xml'', content = data\<rparr>, s))"

definition index_html :: "env \<Rightarrow> handler" where
  "index_html ev s r =
     (case open_read ev (static_dir ev @ [''index.html'']) of
        Inl e \<Rightarrow> (Inl e, s)
      | Inr data \<Rightarrow> (Inr \<lparr>status_code = 200, media_type = ''text/html'', content = data\<rparr>, s))"

subsection \<open>Starlette's \<^verbatim>\<open>StaticFiles\<close>\<close>

text \<open>
  The file a path under a directory names: empty and \<^verbatim>\<open>.\<close> segments are dropped, a
  \<^verbatim>\<open>..\<close> segment drops the segment before it.
\<close>

fun resolve :: "string list \<Rightarrow> string list \<Rightarrow> string list" where
  "resolve acc [] = acc"
| "resolve acc (seg # segs) =
     (if seg = '''' \<or> seg = ''.'' then resolve acc segs
      else if seg = ''..'' then resolve (butlast acc) segs
      else resolve (acc @ [seg]) segs)"

text \<open>
  \<^verbatim>\<open>StaticFiles(directory=d)\<close> called for the path \<open>p\<close> under its mount: only \<^verbatim>\<open>GET\<close> and
  \<^verbatim>\<open>HEAD\<close> are allowed; a file inside the directory is sent, anything else is not found.
\<close>

definition StaticFiles :: "env \<Rightarrow> string list \<Rightarrow> string list \<Rightarrow> handler" where
  "StaticFiles ev d p s r =
     (if method r \<noteq> GET \<and> method r \<noteq> HEAD
      then (Inl (HTTPException 405 ''Method Not Allowed''), s)
      else let full = resolve d p
           in if take (length d) full = d
              then (case files ev full of
                      Some data \<Rightarrow> (Inr (file_response ev full data r), s)
                    | None \<Rightarrow> (Inl (HTTPException 404 ''Not Found''), s))
              else (Inl (HTTPException 404 ''Not Found''), s))"

subsection \<open>The route table\<close>

datatype endpoint =
    Hello
  | HelloPost
  | HelloHtmx
  | MainContent
  | DuckdbExample
  | PolarsExample
  | ViteSvg
  | IndexHtml

datatype route =
    Route "string list" endpoint "http_method list"
  | Mount "string list" "route list"
  | StaticMount "string list" "string list"

definition api_routes :: "route list" where
  "api_routes =
     [Route [''hello''] Hello [GET],
      Route [''hello''] HelloPost [POST],
      Route [''hello-htmx''] HelloHtmx [GET],
      Route [''main-content''] MainContent [GET],
      Route [''duckdb-example''] DuckdbExample [GET],
      Route [''polars-example''] PolarsExample [GET]]"

definition routes :: "env \<Rightarrow> route list" where
  "routes ev =
     [Mount [''api''] api_routes,
      StaticMount [''assets''] (static_dir ev @ [''assets'']),
      Route [''vite.svg''] ViteSvg [GET],
      Route [''''] IndexHtml [GET]]"

text \<open>
  \<^verbatim>\<open>create_app\<close>: the constructor of \<^verbatim>\<open>StaticFiles\<close> raises \<^verbatim>\<open>RuntimeError\<close> when its
  directory does not exist.
\<close>

definition create_app :: "env \<Rightarrow> error + route list" where
  "create_app ev =
     (if is_dir ev (static_dir ev @ [''assets'']) then Inr (routes ev) else Inl RuntimeError)"

subsection \<open>Starlette's routing\<close>

datatype match_kind = NoMatch | Partial | Full

text \<open>A route for \<^verbatim>\<open>GET\<close> serves \<^verbatim>\<open>HEAD\<close> too.\<close>

definition allowed :: "http_method list \<Rightarrow> http_method list" where
  "allowed ms = (if GET \<in> set ms then HEAD # ms else ms)"

definition under :: "string list \<Rightarrow> string list \<Rightarrow> bool" where
  "under pre p = (length pre < length p \<and> take (length pre) p = pre)"

fun matches :: "route \<Rightarrow> http_method \<Rightarrow> string list \<Rightarrow> match_kind" where
  "matches (Route rp ep ms) m p =
     (if p = rp then (if m \<in> set (allowed ms) then Full else Partial) else NoMatch)"
| "matches (Mount pre sub) m p = (if under pre p then Full else NoMatch)"
| "matches (StaticMount pre d) m p = (if under pre p then Full else NoMatch)"

text \<open>The path with its trailing slashes removed, or with one added.\<close>

definition toggle_slash :: "string list \<Rightarrow> string list" where
  "toggle_slash p =
     (if p \<noteq> [] \<and> last p = '''' then rev (dropWhile (\<lambda>seg. seg = '''') (rev p))
      else p @ [''''])"

datatype resolution =
    Call endpoint
  | Static "string list" "string list"
  | MethodNotAllowed
  | Redirect "string list"
  | NotFound

text \<open>What a router does when none of its routes matches in full.\<close>

definition fallback :: "route list \<Rightarrow> http_method \<Rightarrow> string list \<Rightarrow> resolution" where
  "fallback rs m p =
     (if list_ex (\<lambda>r. matches r m p = Partial) rs then MethodNotAllowed
      else if p \<noteq> [''''] \<and> list_ex (\<lambda>r. matches r m (toggle_slash p) \<noteq> NoMatch) rs
      then Redirect (toggle_slash p)
      else NotFound)"

text \<open>
  \<open>router all rs m p\<close>: the first of the routes \<open>rs\<close> that matches in full handles the
  request, a mount by its own router on the rest of the path; \<open>all\<close> is the whole list
  of this router, for the fallback.
\<close>

fun router :: "route list \<Rightarrow> route list \<Rightarrow> http_method \<Rightarrow> string list \<Rightarrow> resolution" where
  "router all [] m p = fallback all m p"
| "router all (Route rp ep ms # rs) m p =
     (if matches (Route rp ep ms) m p = Full then Call ep else router all rs m p)"
| "router all (Mount pre sub # rs) m p =
     (if under pre p then router sub sub m (drop (length pre) p) else router all rs m p)"
| "router all (StaticMount pre d # rs) m p =
     (if under pre p then Static d (drop (length pre) p) else router all rs m p)"

subsection \<open>The served application\<close>

fun call :: "env \<Rightarrow> endpoint \<Rightarrow> handler" where
  "call ev Hello = hello"
| "call ev HelloPost = hello_post"
| "call ev HelloHtmx = hello_htmx ev"
| "call ev MainContent = main_content ev"
| "call ev DuckdbExample = duckdb_example"
| "call ev PolarsExample = polars_example"
| "call ev ViteSvg = vite_svg ev"
| "call ev IndexHtml = index_html ev"

text \<open>
  Starlette's exception middleware: an \<^verbatim>\<open>HTTPException\<close> becomes the plain-text response
  of its status, any other exception the response 500.
\<close>

fun respond :: "error + response \<Rightarrow> response" where
  "respond (Inr r) = r"
| "respond (Inl (HTTPException code detail)) =
     \<lparr>status_code = code, media_type = ''text/plain'', content = detail\<rparr>"
| "respond (Inl _) =
     \<lparr>status_code = 500, media_type = ''text/plain'', content = ''Internal Server Error''\<rparr>"

definition app :: "env \<Rightarrow> route list \<Rightarrow> app_state \<Rightarrow> request \<Rightarrow> response \<times> app_state" where
  "app ev rs s r =
     (case router rs rs (method r) (path r) of
        Call ep \<Rightarrow> (case call ev ep s r of (out, s') \<Rightarrow> (respond out, s'))
      | Static d p \<Rightarrow> (case StaticFiles ev d p s r of (out, s') \<Rightarrow> (respond out, s'))
      | MethodNotAllowed \<Rightarrow> (respond (Inl (HTTPException 405 ''Method Not Allowed'')), s)
      | Redirect p \<Rightarrow> (\<lparr>status_code = 307, media_type = '''', content = ''''\<rparr>, s)
      | NotFound \<Rightarrow> (respond (Inl (HTTPException 404 ''Not Found'')), s))"

text \<open>
  A run of the server on a sequence of requests: each request is recorded with the state
  it met and the response it got.
\<close>

fun run ::
  "env \<Rightarrow> route list \<Rightarrow> app_state \<Rightarrow> request list \<Rightarrow> (app_state \<times> response) list \<times> app_state" where
  "run ev rs s [] = ([], s)"
| "run ev rs s (r # reqs) =
     (case app ev rs s r of
        (resp, s') \<Rightarrow> (case run ev rs s' reqs of (served, final) \<Rightarrow> ((s, resp) # served, final)))"

text \<open>The life of the process: the application is built, the lifespan hook runs, requests are served.\<close>

definition serve ::
  "env \<Rightarrow> app_state \<Rightarrow> request list \<Rightarrow> error + (app_state \<times> response) list \<times> app_state" where
  "serve ev s0 reqs =
     (case create_app ev of
        Inl e \<Rightarrow> Inl e
      | Inr rs \<Rightarrow> Inr (run ev rs (lifespan s0) reqs))"

section \<open>Example inputs\<close>

text \<open>An installation with no file in it, whose \<^verbatim>\<open>assets\<close> directory exists.\<close>

definition bare_site :: env where
  "bare_site =
     \<lparr>module_file = [''srv'', ''backend'', ''old'', ''boilerplate_app'', ''web'', ''__init__.py''],
      files = (\<lambda>p. None),
      is_dir = (\<lambda>p. True),
      jinja = (\<lambda>source r. Inr source),
      file_response =
        (\<lambda>p data r. \<lparr>status_code = 200, media_type = ''text/plain'', content = data\<rparr>)\<rparr>"

definition fresh :: app_state where
  "fresh = \<lparr>db = None, sql_log = []\<rparr>"

text \<open>A handle to a database without a table \<^verbatim>\<open>users\<close>.\<close>

definition no_users :: db_handle where
  "no_users = DbHandle (\<lambda>q. Inl DatabaseError)"

definition get :: "string list \<Rightarrow> request" where
  "get p = \<lparr>method = GET, path = p, query_string = '''', headers = [], body = Undecodable ''''\<rparr>"

definition post :: "string list \<Rightarrow> json \<Rightarrow> request" where
  "post p v = \<lparr>method = POST, path = p, query_string = '''', headers = [], body = Decodable v\<rparr>"

section \<open>Properties\<close>

subsection \<open>Evaluation of the literal tables\<close>

lemma process_rows:
  "process =
     Inr [[(''product'', JStr ''A''), (''total'', JFloat (Finite False 525 1))],
          [(''product'', JStr ''B''), (''total'', JFloat (Finite False 625 1))],
          [(''product'', JStr ''C''), (''total'', JFloat (Finite False 4725 (- 2)))],
          [(''product'', JStr ''D''), (''total'', JFloat (Finite False 375 1))],
          [(''product'', JStr ''E''), (''total'', JFloat (Finite False 1215 0))]]"
  by code_simp

lemma process_text:
  \<open>json_dumps
     (JArr [JObj [(''product'', JStr ''A''), (''total'', JFloat (Finite False 525 1))],
            JObj [(''product'', JStr ''B''), (''total'', JFloat (Finite False 625 1))],
            JObj [(''product'', JStr ''C''), (''total'', JFloat (Finite False 4725 (- 2)))],
            JObj [(''product'', JStr ''D''), (''total'', JFloat (Finite False 375 1))],
            JObj [(''product'', JStr ''E''), (''total'', JFloat (Finite False 1215 0))]]) =
   Inr ''[{"product":"A","total":1050.0},{"product":"B","total":1250.0},{"product":"C","total":1181.25},{"product":"D","total":750.0},{"product":"E","total":1215.0}]''\<close>
  by code_simp

lemma polars_example_eval:
  \<open>polars_example s request =
     (Inr \<lparr>status_code = 200, media_type = ''application/json'',
           content = ''[{"product":"A","total":1050.0},{"product":"B","total":1250.0},{"product":"C","total":1181.25},{"product":"D","total":750.0},{"product":"E","total":1215.0}]''\<rparr>,
      s)\<close>
  by (simp add: polars_example_def process_rows JSONResponse_def process_text
      del: json_dumps.simps)

lemma users_rows:
  "DataFrame
     [(''name'', Utf8 [''Alice'', ''Bob'', ''Charlie'']),
      (''age'', Int64 [25, 30, 35]),
      (''city'', Utf8 [''NYC'', ''LA'', ''Chicago''])] =
   Inr [(''name'', Utf8 [''Alice'', ''Bob'', ''Charlie'']),
        (''age'', Int64 [25, 30, 35]),
        (''city'', Utf8 [''NYC'', ''LA'', ''Chicago''])]"
  by code_simp

lemma users_dicts:
  "to_dicts
     [(''name'', Utf8 [''Alice'', ''Bob'', ''Charlie'']),
      (''age'', Int64 [25, 30, 35]),
      (''city'', Utf8 [''NYC'', ''LA'', ''Chicago''])] =
   [[(''name'', JStr ''Alice''), (''age'', JInt 25), (''city'', JStr ''NYC'')],
    [(''name'', JStr ''Bob''), (''age'', JInt 30), (''city'', JStr ''LA'')],
    [(''name'', JStr ''Charlie''), (''age'', JInt 35), (''city'', JStr ''Chicago'')]]"
  by code_simp

lemma users_text:
  \<open>json_dumps
     (JArr [JObj [(''name'', JStr ''Alice''), (''age'', JInt 25), (''city'', JStr ''NYC'')],
            JObj [(''name'', JStr ''Bob''), (''age'', JInt 30), (''city'', JStr ''LA'')],
            JObj [(''name'', JStr ''Charlie''), (''age'', JInt 35), (''city'', JStr ''Chicago'')]]) =
   Inr ''[{"name":"Alice","age":25,"city":"NYC"},{"name":"Bob","age":30,"city":"LA"},{"name":"Charlie","age":35,"city":"Chicago"}]''\<close>
  by code_simp

lemma query_none:
  "db s = None \<Longrightarrow>
   query s =
     (Inr [[(''name'', JStr ''Alice''), (''age'', JInt 25), (''city'', JStr ''NYC'')],
           [(''name'', JStr ''Bob''), (''age'', JInt 30), (''city'', JStr ''LA'')],
           [(''name'', JStr ''Charlie''), (''age'', JInt 35), (''city'', JStr ''Chicago'')]],
      s)"
  by (simp add: query_def users_rows users_dicts)

lemma duckdb_example_none:
  \<open>db s = None \<Longrightarrow>
   duckdb_example s request =
     (Inr \<lparr>status_code = 200, media_type = ''application/json'',
           content = ''[{"name":"Alice","age":25,"city":"NYC"},{"name":"Bob","age":30,"city":"LA"},{"name":"Charlie","age":35,"city":"Chicago"}]''\<rparr>,
      s)\<close>
  by (simp add: duckdb_example_def query_none JSONResponse_def users_text del: json_dumps.simps)

lemma hello_eval:
  \<open>hello s request =
     (Inr \<lparr>status_code = 200, media_type = ''application/json'',
           content = ''{"message":"Hello from Starlette API!"}''\<rparr>,
      s)\<close>
proof -
  have \<open>json_dumps (JObj [(''message'', JStr ''Hello from Starlette API!'')]) =
        Inr ''{"message":"Hello from Starlette API!"}''\<close>
    by code_simp
  then show ?thesis
    by (simp add: hello_def JSONResponse_def del: json_dumps.simps)
qed

subsection \<open>Routing\<close>

lemma route_api:
  "router (routes ev) (routes ev) GET [''api'', ''hello''] = Call Hello"
  "router (routes ev) (routes ev) POST [''api'', ''hello''] = Call HelloPost"
  "router (routes ev) (routes ev) GET [''api'', ''duckdb-example''] = Call DuckdbExample"
  "router (routes ev) (routes ev) GET [''api'', ''polars-example''] = Call PolarsExample"
  "router (routes ev) (routes ev) GET [''vite.svg''] = Call ViteSvg"
  "router (routes ev) (routes ev) GET [''''] = Call IndexHtml"
  by (simp_all add: routes_def api_routes_def under_def allowed_def)


subsection \<open>The greeting of \<^verbatim>\<open>hello_post\<close>\<close>



subsection \<open>The served application on the API routes\<close>

lemma app_hello:
  \<open>app ev (routes ev) s (request\<lparr>method := GET, path := [''api'', ''hello'']\<rparr>) =
     (\<lparr>status_code = 200, media_type = ''application/json'',
       content = ''{"message":"Hello from Starlette API!"}''\<rparr>, s)\<close>
  by (simp add: hello_eval route_api app_def)

lemma app_polars:
  \<open>app ev (routes ev) s (request\<lparr>method := GET, path := [''api'', ''polars-example'']\<rparr>) =
     (\<lparr>status_code = 200, media_type = ''application/json'',
       content = ''[{"product":"A","total":1050.0},{"product":"B","total":1250.0},{"product":"C","total":1181.25},{"product":"D","total":750.0},{"product":"E","total":1215.0}]''\<rparr>,
      s)\<close>
  by (simp add: polars_example_eval route_api app_def)

lemma app_duckdb:
  \<open>db s = None \<Longrightarrow>
   app ev (routes ev) s (request\<lparr>method := GET, path := [''api'', ''duckdb-example'']\<rparr>) =
     (\<lparr>status_code = 200, media_type = ''application/json'',
       content = ''[{"name":"Alice","age":25,"city":"NYC"},{"name":"Bob","age":30,"city":"LA"},{"name":"Charlie","age":35,"city":"Chicago"}]''\<rparr>,
      s)\<close>
  by (simp add: duckdb_example_none route_api app_def)

subsection \<open>What the handlers do to the state\<close>

lemma hello_post_state: "snd (hello_post s r) = s"
  by (simp add: hello_post_def split: sum.splits json.splits)

lemma query_db: "db (snd (query s)) = db s"
  by (simp add: query_def users_rows split: option.splits sum.splits)

lemma query_none_state: "db s = None \<Longrightarrow> snd (query s) = s"
  by (simp add: query_none)

lemma query_some_log:
  "db s = Some h \<Longrightarrow> sql_log (snd (query s)) = sql_log s @ [''SELECT * FROM users'']"
  by (simp add: query_def split: sum.splits)

lemma query_cong: "db s = db s' \<Longrightarrow> fst (query s) = fst (query s')"
  by (simp add: query_def users_rows split: option.splits sum.splits)

lemma duckdb_example_alt:
  "duckdb_example s r =
     (case fst (query s) of Inl e \<Rightarrow> Inl e | Inr rows \<Rightarrow> JSONResponse (JArr (map JObj rows)),
      snd (query s))"
  by (simp add: duckdb_example_def split: prod.splits sum.splits)

lemma duckdb_example_db: "db (snd (duckdb_example s r)) = db s"
  by (simp add: duckdb_example_alt query_db)

lemma duckdb_example_cong:
  "db s = db s' \<Longrightarrow> fst (duckdb_example s r) = fst (duckdb_example s' r')"
  by (simp add: duckdb_example_alt query_cong [of s s'])

lemma call_db: "db (snd (call ev ep s r)) = db s"
  by (cases ep)
    (simp_all add: hello_eval hello_post_state hello_htmx_def main_content_def
      duckdb_example_db polars_example_eval vite_svg_def index_html_def split: sum.splits)

lemma call_none_state: "db s = None \<Longrightarrow> snd (call ev ep s r) = s"
  by (cases ep)
    (simp_all add: hello_eval hello_post_state hello_htmx_def main_content_def
      duckdb_example_none polars_example_eval vite_svg_def index_html_def split: sum.splits)

lemma call_cong: "db s = db s' \<Longrightarrow> fst (call ev ep s r) = fst (call ev ep s' r)"
  by (cases ep)
    (simp_all add: hello_eval hello_post_def hello_htmx_def main_content_def
      duckdb_example_cong [of s s'] polars_example_eval vite_svg_def index_html_def
      split: sum.splits json.splits)

lemma StaticFiles_state: "snd (StaticFiles ev d p s r) = s"
  by (simp add: StaticFiles_def Let_def split: option.splits)

lemma StaticFiles_cong: "fst (StaticFiles ev d p s r) = fst (StaticFiles ev d p s' r)"
  by (simp add: StaticFiles_def Let_def split: option.splits)

lemma app_alt:
  "app ev rs s r =
     (case router rs rs (method r) (path r) of
        Call ep \<Rightarrow> (respond (fst (call ev ep s r)), snd (call ev ep s r))
      | Static d p \<Rightarrow> (respond (fst (StaticFiles ev d p s r)), snd (StaticFiles ev d p s r))
      | MethodNotAllowed \<Rightarrow> (respond (Inl (HTTPException 405 ''Method Not Allowed'')), s)
      | Redirect p \<Rightarrow> (\<lparr>status_code = 307, media_type = '''', content = ''''\<rparr>, s)
      | NotFound \<Rightarrow> (respond (Inl (HTTPException 404 ''Not Found'')), s))"
  by (simp add: app_def split: resolution.splits prod.splits)

lemma app_db: "db (snd (app ev rs s r)) = db s"
  by (simp add: app_alt call_db StaticFiles_state split: resolution.splits)

lemma app_none_state: "db s = None \<Longrightarrow> snd (app ev rs s r) = s"
  by (simp add: app_alt call_none_state StaticFiles_state split: resolution.splits)

lemma app_cong: "db s = db s' \<Longrightarrow> fst (app ev rs s r) = fst (app ev rs s' r)"
  by (simp add: app_alt call_cong [of s s'] StaticFiles_cong [of ev _ _ s r s']
      split: resolution.splits)

lemma run_alt:
  "run ev rs s (r # reqs) =
     ((s, fst (app ev rs s r)) # fst (run ev rs (snd (app ev rs s r)) reqs),
      snd (run ev rs (snd (app ev rs s r)) reqs))"
  by (simp split: prod.splits)

lemma run_none:
  "db s = None \<Longrightarrow>
   map fst (fst (run ev rs s reqs)) = replicate (length reqs) s \<and> snd (run ev rs s reqs) = s"
proof (induction reqs)
  case Nil
  show ?case by simp
next
  case (Cons r reqs)
  from Cons.prems have "snd (app ev rs s r) = s"
    by (rule app_none_state)
  with Cons show ?case
    by (simp add: run_alt del: run.simps)
qed

lemma lifespan_db: "db (lifespan s0) = None"
  by (simp add: lifespan_def)

lemma lifespan_log: "sql_log (lifespan s0) = sql_log s0"
  by (simp add: lifespan_def)

lemma run_after_lifespan:
  "map fst (fst (run ev rs (lifespan s0) reqs)) = replicate (length reqs) (lifespan s0)"
  "snd (run ev rs (lifespan s0) reqs) = lifespan s0"
  using run_none [OF lifespan_db, of ev rs s0 reqs] by simp_all

lemma serve_run:
  "serve ev s0 reqs =
     (if is_dir ev (static_dir ev @ [''assets''])
      then Inr (run ev (routes ev) (lifespan s0) reqs)
      else Inl RuntimeError)"
  by (simp add: serve_def create_app_def)

subsection \<open>The claims\<close>

text \<open>
  C5. For every request, the handler of \<^verbatim>\<open>GET /api/hello\<close> returns exactly the JSON object
  \<^verbatim>\<open>{"message": "Hello from Starlette API!"}\<close> with status 200: the handler \<open>hello\<close>
  returns it for every state and request and leaves the state alone, the route table
  sends \<^verbatim>\<open>GET /api/hello\<close> to \<open>hello\<close>, and the served application answers every request
  with that method and path by it.
\<close>

theorem hello_returns_greeting:
  \<open>hello s request =
     (Inr \<lparr>status_code = 200, media_type = ''application/json'',
           content = ''{"message":"Hello from Starlette API!"}''\<rparr>, s) \<and>
   router (routes ev) (routes ev) GET [''api'', ''hello''] = Call Hello \<and>
   app ev (routes ev) s (request\<lparr>method := GET, path := [''api'', ''hello'']\<rparr>) =
     (\<lparr>status_code = 200, media_type = ''application/json'',
       content = ''{"message":"Hello from Starlette API!"}''\<rparr>, s)\<close>
  using hello_eval [of s request] route_api(1) [of ev] app_hello [of ev s request]
  by blast

text \<open>
  C1. For every request, the handler of \<^verbatim>\<open>GET /api/polars-example\<close> returns a JSON array
  of exactly 5 records, each with exactly the keys \<^verbatim>\<open>product\<close> and \<^verbatim>\<open>total\<close>, the products
  A to E in order, each total the binary64 product of the price and the quantity of its
  row, which are the numbers 1050, 1250, 1181.25, 750 and 1215, written
  \<^verbatim>\<open>1050.0, 1250.0, 1181.25, 750.0, 1215.0\<close> in the body.
\<close>

theorem polars_example_returns_totals:
  \<open>process =
     Inr [[(''product'', JStr ''A''), (''total'', JFloat (Finite False 525 1))],
          [(''product'', JStr ''B''), (''total'', JFloat (Finite False 625 1))],
          [(''product'', JStr ''C''), (''total'', JFloat (Finite False 4725 (- 2)))],
          [(''product'', JStr ''D''), (''total'', JFloat (Finite False 375 1))],
          [(''product'', JStr ''E''), (''total'', JFloat (Finite False 1215 0))]] \<and>
   map2 f64_mul price (map f64_of_int [100, 50, 75, 25, 60]) =
     [Finite False 525 1, Finite False 625 1, Finite False 4725 (- 2), Finite False 375 1,
      Finite False 1215 0] \<and>
   map f64_val price = [Some 10.5, Some 25, Some 15.75, Some 30, Some 20.25] \<and>
   map f64_val
     [Finite False 525 1, Finite False 625 1, Finite False 4725 (- 2), Finite False 375 1,
      Finite False 1215 0] =
     [Some 1050, Some 1250, Some 1181.25, Some 750, Some 1215] \<and>
   polars_example s request =
     (Inr \<lparr>status_code = 200, media_type = ''application/json'',
           content = ''[{"product":"A","total":1050.0},{"product":"B","total":1250.0},{"product":"C","total":1181.25},{"product":"D","total":750.0},{"product":"E","total":1215.0}]''\<rparr>,
      s) \<and>
   app ev (routes ev) s (request\<lparr>method := GET, path := [''api'', ''polars-example'']\<rparr>) =
     (\<lparr>status_code = 200, media_type = ''application/json'',
       content = ''[{"product":"A","total":1050.0},{"product":"B","total":1250.0},{"product":"C","total":1181.25},{"product":"D","total":750.0},{"product":"E","total":1215.0}]''\<rparr>,
      s)\<close>
proof -
  have "map2 f64_mul price (map f64_of_int [100, 50, 75, 25, 60]) =
     [Finite False 525 1, Finite False 625 1, Finite False 4725 (- 2), Finite False 375 1,
      Finite False 1215 0]"
    by code_simp
  moreover have "map f64_val price = [Some 10.5, Some 25, Some 15.75, Some 30, Some 20.25]"
    by (simp add: price_def)
  moreover have "map f64_val
     [Finite False 525 1, Finite False 625 1, Finite False 4725 (- 2), Finite False 375 1,
      Finite False 1215 0] =
     [Some 1050, Some 1250, Some 1181.25, Some 750, Some 1215]"
    by simp
  ultimately show ?thesis
    using process_rows polars_example_eval [of s request] app_polars [of ev s request]
    by blast
qed

text \<open>
  C2. For every request that meets the application state with \<open>db = None\<close>, the handler
  of \<^verbatim>\<open>GET /api/duckdb-example\<close> returns a JSON array of exactly 3 records with exactly
  the keys \<^verbatim>\<open>name\<close>, \<^verbatim>\<open>age\<close>, \<^verbatim>\<open>city\<close>, with the values (Alice, 25, NYC), (Bob, 30, LA),
  (Charlie, 35, Chicago) in that order.
\<close>

theorem duckdb_example_returns_users:
  \<open>db s = None \<Longrightarrow>
   query s =
     (Inr [[(''name'', JStr ''Alice''), (''age'', JInt 25), (''city'', JStr ''NYC'')],
           [(''name'', JStr ''Bob''), (''age'', JInt 30), (''city'', JStr ''LA'')],
           [(''name'', JStr ''Charlie''), (''age'', JInt 35), (''city'', JStr ''Chicago'')]],
      s) \<and>
   duckdb_example s request =
     (Inr \<lparr>status_code = 200, media_type = ''application/json'',
           content = ''[{"name":"Alice","age":25,"city":"NYC"},{"name":"Bob","age":30,"city":"LA"},{"name":"Charlie","age":35,"city":"Chicago"}]''\<rparr>,
      s) \<and>
   app ev (routes ev) s (request\<lparr>method := GET, path := [''api'', ''duckdb-example'']\<rparr>) =
     (\<lparr>status_code = 200, media_type = ''application/json'',
       content = ''[{"name":"Alice","age":25,"city":"NYC"},{"name":"Bob","age":30,"city":"LA"},{"name":"Charlie","age":35,"city":"Chicago"}]''\<rparr>,
      s)\<close>
  using query_none [of s] duckdb_example_none [of s request] app_duckdb [of s ev request]
  by blast

theorem duckdb_example_returns_users_witness:
  \<open>db fresh = None \<and>
   duckdb_example fresh (get [''api'', ''duckdb-example'']) =
     (Inr \<lparr>status_code = 200, media_type = ''application/json'',
           content = ''[{"name":"Alice","age":25,"city":"NYC"},{"name":"Bob","age":30,"city":"LA"},{"name":"Charlie","age":35,"city":"Chicago"}]''\<rparr>,
      fresh) \<and>
   app bare_site (routes bare_site) fresh (get [''api'', ''duckdb-example'']) =
     (\<lparr>status_code = 200, media_type = ''application/json'',
       content = ''[{"name":"Alice","age":25,"city":"NYC"},{"name":"Bob","age":30,"city":"LA"},{"name":"Charlie","age":35,"city":"Chicago"}]''\<rparr>,
      fresh)\<close>
proof -
  have none: "db fresh = None"
    by (simp add: fresh_def)
  have same: "(get [''api'', ''duckdb-example''])\<lparr>method := GET, path := [''api'', ''duckdb-example'']\<rparr> =
              get [''api'', ''duckdb-example'']"
    by (simp add: get_def)
  from duckdb_example_returns_users [OF none, of "get [''api'', ''duckdb-example'']" bare_site]
  show ?thesis
    using none by (simp only: same simp_thms)
qed





text \<open>
  C6. The \<open>db\<close> handle of the application state is \<open>None\<close> from startup onward: the
  lifespan hook sets it to \<open>None\<close>, no endpoint, no static file lookup and no answer of
  the application changes it, and so in every run that starts with the lifespan hook
  every request meets \<open>db = None\<close> and the run ends with \<open>db = None\<close>.
\<close>

theorem db_is_always_none:
  "db (lifespan s0) = None \<and>
   db (snd (call ev ep s r)) = db s \<and>
   db (snd (StaticFiles ev d p s r)) = db s \<and>
   db (snd (app ev rs s r)) = db s \<and>
   map (\<lambda>(seen, resp). db seen) (fst (run ev rs (lifespan s0) reqs)) =
     replicate (length reqs) None \<and>
   db (snd (run ev rs (lifespan s0) reqs)) = None"
proof -
  have "map (\<lambda>(seen, resp). db seen) (fst (run ev rs (lifespan s0) reqs)) =
        map db (map fst (fst (run ev rs (lifespan s0) reqs)))"
    by (simp add: case_prod_unfold)
  then have "map (\<lambda>(seen, resp). db seen) (fst (run ev rs (lifespan s0) reqs)) =
        replicate (length reqs) None"
    by (simp only: run_after_lifespan map_replicate lifespan_db)
  then show ?thesis
    by (simp add: lifespan_db call_db StaticFiles_state app_db run_after_lifespan)
qed

text \<open>
  C7. Repeated calls of a \<^verbatim>\<open>GET\<close> handler return the same body, and no call changes
  state a later response depends on. For the three JSON handlers \<open>hello\<close>,
  \<open>polars_example\<close> and \<open>duckdb_example\<close> the second call returns what the first returned
  even for a different request; \<open>hello\<close> and \<open>polars_example\<close> return the state they were
  given and \<open>duckdb_example\<close> returns it with the same \<open>db\<close>. The template handlers, and
  the whole application on any request, answer a repeated request as they answered it
  first.
\<close>

theorem get_handlers_repeat_their_response:
  "fst (hello (snd (hello s r1)) r2) = fst (hello s r1) \<and>
   snd (hello s r1) = s \<and>
   fst (polars_example (snd (polars_example s r1)) r2) = fst (polars_example s r1) \<and>
   snd (polars_example s r1) = s \<and>
   fst (duckdb_example (snd (duckdb_example s r1)) r2) = fst (duckdb_example s r1) \<and>
   db (snd (duckdb_example s r1)) = db s \<and>
   fst (hello_htmx ev (snd (hello_htmx ev s r)) r) = fst (hello_htmx ev s r) \<and>
   snd (hello_htmx ev s r) = s \<and>
   fst (main_content ev (snd (main_content ev s r)) r) = fst (main_content ev s r) \<and>
   snd (main_content ev s r) = s \<and>
   fst (app ev rs (snd (app ev rs s r)) r) = fst (app ev rs s r)"
proof -
  have "fst (duckdb_example (snd (duckdb_example s r1)) r2) = fst (duckdb_example s r1)"
    by (rule duckdb_example_cong) (rule duckdb_example_db)
  moreover have "fst (app ev rs (snd (app ev rs s r)) r) = fst (app ev rs s r)"
    by (rule app_cong) (rule app_db)
  ultimately show ?thesis
    by (simp add: hello_eval polars_example_eval duckdb_example_db hello_htmx_def
        main_content_def)
qed

text \<open>
  C8. The responses of the two tabular handlers do not depend on the request:
  \<open>polars_example\<close> returns one response for all states and requests,
  \<open>duckdb_example\<close> returns one response for all requests in a state, and one response
  for all requests in all states with \<open>db = None\<close>; the served application answers
  \<^verbatim>\<open>GET /api/polars-example\<close> and \<^verbatim>\<open>GET /api/duckdb-example\<close> the same whatever the
  query string, the headers and the body of the request.
\<close>

theorem tabular_handlers_ignore_the_request:
  "fst (polars_example s r1) = fst (polars_example s' r2) \<and>
   fst (duckdb_example s r1) = fst (duckdb_example s r2) \<and>
   (db s = None \<and> db s' = None \<longrightarrow> fst (duckdb_example s r1) = fst (duckdb_example s' r2)) \<and>
   fst (app ev (routes ev) s (r1\<lparr>method := GET, path := [''api'', ''polars-example'']\<rparr>)) =
   fst (app ev (routes ev) s (r2\<lparr>method := GET, path := [''api'', ''polars-example'']\<rparr>)) \<and>
   fst (app ev (routes ev) s (r1\<lparr>method := GET, path := [''api'', ''duckdb-example'']\<rparr>)) =
   fst (app ev (routes ev) s (r2\<lparr>method := GET, path := [''api'', ''duckdb-example'']\<rparr>))"
proof -
  have "fst (duckdb_example s r1) = fst (duckdb_example s r2)"
    by (rule duckdb_example_cong) simp
  moreover have
    "db s = None \<and> db s' = None \<longrightarrow> fst (duckdb_example s r1) = fst (duckdb_example s' r2)"
    by (simp add: duckdb_example_cong [of s s'])
  moreover have
    "fst (app ev (routes ev) s (r1\<lparr>method := GET, path := [''api'', ''duckdb-example'']\<rparr>)) =
     fst (app ev (routes ev) s (r2\<lparr>method := GET, path := [''api'', ''duckdb-example'']\<rparr>))"
    using duckdb_example_cong
      [OF refl, of s "r1\<lparr>method := GET, path := [''api'', ''duckdb-example'']\<rparr>"
         "r2\<lparr>method := GET, path := [''api'', ''duckdb-example'']\<rparr>"]
    by (simp add: app_alt route_api)
  ultimately show ?thesis
    by (simp add: polars_example_eval app_polars)
qed

theorem tabular_handlers_ignore_the_request_witness:
  "db fresh = None \<and> db (fresh\<lparr>sql_log := [''x'']\<rparr>) = None \<and>
   fst (duckdb_example fresh (get [''api'', ''duckdb-example''])) =
   fst (duckdb_example (fresh\<lparr>sql_log := [''x'']\<rparr>)
         (post [''api'', ''duckdb-example''] (JObj [(''name'', JStr ''Ada'')])))"
proof -
  have none: "db fresh = None \<and> db (fresh\<lparr>sql_log := [''x'']\<rparr>) = None"
    by (simp add: fresh_def)
  have "db fresh = None \<and> db (fresh\<lparr>sql_log := [''x'']\<rparr>) = None \<longrightarrow>
     fst (duckdb_example fresh (get [''api'', ''duckdb-example''])) =
     fst (duckdb_example (fresh\<lparr>sql_log := [''x'']\<rparr>)
           (post [''api'', ''duckdb-example''] (JObj [(''name'', JStr ''Ada'')])))"
    using tabular_handlers_ignore_the_request
      [where s = fresh and s' = "fresh\<lparr>sql_log := [''x'']\<rparr>"
         and ?r1.0 = "get [''api'', ''duckdb-example'']"
         and ?r2.0 = "post [''api'', ''duckdb-example''] (JObj [(''name'', JStr ''Ada'')])"
         and ev = bare_site]
    by blast
  with none show ?thesis
    by blast
qed

text \<open>
  C10. With \<open>db = None\<close> the database branch of \<open>duckdb_example\<close> is not reached. The
  branch sends its statement to the handle, which \<open>sql_log\<close> records; \<open>query\<close> on a state
  with \<open>db = None\<close> returns the state as it was, and in every run that starts with the
  lifespan hook the log is, at every request and at the end, the log the run started
  with: no statement is ever sent.
\<close>

theorem database_branch_is_unreachable:
  "(db s1 = None \<longrightarrow> snd (query s1) = s1 \<and> snd (duckdb_example s1 r) = s1) \<and>
   (db s2 = Some h \<longrightarrow>
      sql_log (snd (query s2)) = sql_log s2 @ [''SELECT * FROM users''] \<and>
      sql_log (snd (duckdb_example s2 r)) = sql_log s2 @ [''SELECT * FROM users'']) \<and>
   map (\<lambda>(seen, resp). sql_log seen) (fst (run ev rs (lifespan s0) reqs)) =
     replicate (length reqs) (sql_log s0) \<and>
   sql_log (snd (run ev rs (lifespan s0) reqs)) = sql_log s0"
proof -
  have "map (\<lambda>(seen, resp). sql_log seen) (fst (run ev rs (lifespan s0) reqs)) =
        map sql_log (map fst (fst (run ev rs (lifespan s0) reqs)))"
    by (simp add: case_prod_unfold)
  then have "map (\<lambda>(seen, resp). sql_log seen) (fst (run ev rs (lifespan s0) reqs)) =
        replicate (length reqs) (sql_log s0)"
    by (simp only: run_after_lifespan map_replicate lifespan_log)
  then show ?thesis
    by (simp add: query_none_state query_some_log duckdb_example_alt run_after_lifespan
        lifespan_log)
qed

theorem database_branch_is_unreachable_witness:
  "db fresh = None \<and> snd (query fresh) = fresh \<and>
   snd (duckdb_example fresh (get [''api'', ''duckdb-example''])) = fresh \<and>
   db (fresh\<lparr>db := Some no_users\<rparr>) = Some no_users \<and>
   sql_log (snd (query (fresh\<lparr>db := Some no_users\<rparr>))) =
     sql_log (fresh\<lparr>db := Some no_users\<rparr>) @ [''SELECT * FROM users'']"
proof -
  have none: "db fresh = None"
    by (simp add: fresh_def)
  have some: "db (fresh\<lparr>db := Some no_users\<rparr>) = Some no_users"
    by simp
  note inst = database_branch_is_unreachable
      [where ?s1.0 = fresh and ?s2.0 = "fresh\<lparr>db := Some no_users\<rparr>" and h = no_users
         and r = "get [''api'', ''duckdb-example'']" and ev = bare_site
         and rs = "routes bare_site" and ?s0.0 = fresh and reqs = "[]"]
  from inst have
    "db fresh = None \<longrightarrow>
       snd (query fresh) = fresh \<and>
       snd (duckdb_example fresh (get [''api'', ''duckdb-example''])) = fresh"
    by blast
  moreover from inst have
    "db (fresh\<lparr>db := Some no_users\<rparr>) = Some no_users \<longrightarrow>
       sql_log (snd (query (fresh\<lparr>db := Some no_users\<rparr>))) =
         sql_log (fresh\<lparr>db := Some no_users\<rparr>) @ [''SELECT * FROM users'']"
    by blast
  ultimately show ?thesis
    using none some by blast
qed




end
